theory Spec2Isabelle
  imports Complex_Main "HOL-Library.Multiset"
begin

section \<open>Shadow models: shadow-dataset assembly and hill-climbing record synthesis\<close>

text \<open>
  A shallow embedding of \<^verbatim>\<open>art/attacks/inference/membership_inference/shadow_models.py\<close>
  (class \<^verbatim>\<open>ShadowModels\<close>).

  Conventions of the embedding.
  \<^item> Python exceptions are values of \<open>error\<close>; a method of the class takes the object's
    state and returns its outcome (\<open>Inl\<close> the exception, \<open>Inr\<close> the returned value)
    together with the state it leaves behind, so that what an exception leaves mutated
    stays visible.
  \<^item> Floats are modelled as exact reals: rounding of the float arithmetic is outside the
    model, and \<^verbatim>\<open>astype(np.float32)\<close> is the identity on the abstract samples and labels.
  \<^item> The seeded generator \<^verbatim>\<open>self._rng\<close> is the sequence of the uniform draws from \<open>[0, 1)\<close>
    its seed determines, with the number of draws consumed so far; \<^verbatim>\<open>self._rng.random()\<close>
    takes the next draw of the sequence.
  \<^item> The ambient shuffle \<^verbatim>\<open>np.random.permutation(len(x))\<close> is an argument of the model
    (\<open>random_indices\<close>), which numpy guarantees to be a permutation of \<open>0..<len(x)\<close>.
  \<^item> The classifier collaborators (\<^verbatim>\<open>clone_for_refitting\<close>, \<^verbatim>\<open>fit\<close>, \<^verbatim>\<open>predict\<close>) are
    total functions supplied by the caller; \<^verbatim>\<open>fit\<close>, which trains in place, returns the
    trained model.
\<close>

subsection \<open>Python values\<close>

datatype error =
    ValueError
  | RuntimeError
  | ZeroDivisionError
  | TypeError
  | IndexError
  | AttributeError
  | UnboundLocalError

text \<open>\<^verbatim>\<open>int(v)\<close> of a float: truncation towards zero.\<close>

definition py_int :: "real \<Rightarrow> int" where
  "py_int v = (if 0 \<le> v then \<lfloor>v\<rfloor> else \<lceil>v\<rceil>)"

text \<open>\<^verbatim>\<open>range(n)\<close>: empty for \<open>n \<le> 0\<close>.\<close>

definition py_range :: "int \<Rightarrow> nat list" where
  "py_range n = [0..<nat n]"

text \<open>
  Slices never raise. \<^verbatim>\<open>a[:k]\<close> and \<^verbatim>\<open>a[k:]\<close> with an integer \<open>k\<close> that may be
  negative (then counted from the end) or beyond the end (then clamped);
  \<^verbatim>\<open>a[lo:hi]\<close> with non-negative bounds.
\<close>

definition slice_bound :: "'a list \<Rightarrow> int \<Rightarrow> nat" where
  "slice_bound a k = (if k < 0 then nat (int (length a) + k) else nat k)"

definition slice_upto :: "'a list \<Rightarrow> int \<Rightarrow> 'a list" where
  "slice_upto a k = take (slice_bound a k) a"

definition slice_from :: "'a list \<Rightarrow> int \<Rightarrow> 'a list" where
  "slice_from a k = drop (slice_bound a k) a"

definition slice :: "'a list \<Rightarrow> nat \<Rightarrow> nat \<Rightarrow> 'a list" where
  "slice a lo hi = drop lo (take hi a)"

text \<open>
  \<^verbatim>\<open>reduce(concat, parts)\<close> with \<^verbatim>\<open>concat(first, second) = np.concatenate((first, second))\<close>:
  a left fold from the first element, a \<^verbatim>\<open>TypeError\<close> on the empty list.
\<close>

definition reduce_concat :: "'a list list \<Rightarrow> error + 'a list" where
  "reduce_concat parts =
     (case parts of [] \<Rightarrow> Inl TypeError | first # others \<Rightarrow> Inr (foldl (@) first others))"

text \<open>An exception raised by a step ends the computation; a value is passed on.\<close>

definition and_then :: "error + 'a \<Rightarrow> ('a \<Rightarrow> error + 'b) \<Rightarrow> error + 'b" where
  "and_then r f = (case r of Inl e \<Rightarrow> Inl e | Inr v \<Rightarrow> f v)"

subsection \<open>The seeded generator\<close>

record generator =
  draws :: "nat \<Rightarrow> real"
  consumed :: nat

text \<open>\<^verbatim>\<open>np.random.default_rng(seed)\<close>, \<^verbatim>\<open>rng.random()\<close> and \<^verbatim>\<open>rng.random(n)\<close>.\<close>

definition default_rng :: "(nat \<Rightarrow> real) \<Rightarrow> generator" where
  "default_rng seed = \<lparr> draws = seed, consumed = 0 \<rparr>"

definition rng_random :: "generator \<Rightarrow> real \<times> generator" where
  "rng_random g = (draws g (consumed g), g\<lparr>consumed := consumed g + 1\<rparr>)"

definition rng_random_array :: "nat \<Rightarrow> generator \<Rightarrow> real list \<times> generator" where
  "rng_random_array n g =
     (map (draws g) [consumed g..<consumed g + n], g\<lparr>consumed := consumed g + n\<rparr>)"

subsection \<open>The shadow model pool\<close>

text \<open>The classifier capability the pool consumes.\<close>

record ('m, 'x, 'y, 'p) estimator =
  clone_for_refitting :: "'m \<Rightarrow> 'm"
  template_input_shape :: "'m \<Rightarrow> nat"
  fit :: "'m \<Rightarrow> 'x list \<Rightarrow> 'y list \<Rightarrow> 'm"
  predict :: "'m \<Rightarrow> 'x list \<Rightarrow> 'p list"

text \<open>
  The fields of a \<^verbatim>\<open>ShadowModels\<close> object. A training-set slot is \<open>None\<close> or the pair
  \<^verbatim>\<open>(shadow_x_train, shadow_y_train)\<close>. The input shape is the number of features of a
  record (a one-dimensional shape \<^verbatim>\<open>(n,)\<close>).
\<close>

record ('m, 'x, 'y) ShadowModels =
  shadow_models :: "'m list"
  shadow_models_train_sets :: "('x list \<times> 'y list) option list"
  input_shape :: nat
  rng :: generator

text \<open>\<^verbatim>\<open>__init__\<close>; \<open>random_state\<close> is the sequence of draws the seed determines.\<close>

definition init ::
  "('m, 'x, 'y, 'p) estimator \<Rightarrow> 'm \<Rightarrow> int \<Rightarrow> (nat \<Rightarrow> real) \<Rightarrow> ('m, 'x, 'y) ShadowModels" where
  "init E shadow_model_template num_shadow_models random_state =
     \<lparr> shadow_models =
         map (\<lambda>_. clone_for_refitting E shadow_model_template) (py_range num_shadow_models),
       shadow_models_train_sets = replicate (nat num_shadow_models) None,
       input_shape = template_input_shape E shadow_model_template,
       rng = default_rng random_state \<rparr>"

text \<open>The six lists \<^verbatim>\<open>generate_shadow_dataset\<close> appends to, one entry per shadow model.\<close>

record ('x, 'y, 'p) collected =
  member_samples :: "'x list list"
  member_true_label :: "'y list list"
  member_prediction :: "'p list list"
  nonmember_samples :: "'x list list"
  nonmember_true_label :: "'y list list"
  nonmember_prediction :: "'p list list"

definition no_collected :: "('x, 'y, 'p) collected" where
  "no_collected =
     \<lparr> member_samples = [], member_true_label = [], member_prediction = [],
       nonmember_samples = [], nonmember_true_label = [], nonmember_prediction = [] \<rparr>"

text \<open>
  The loop \<^verbatim>\<open>for i, shadow_model in enumerate(self._shadow_models)\<close>: the list argument
  is what is left to enumerate, \<open>i\<close> the index of its head. The store into
  \<^verbatim>\<open>self._shadow_models_train_sets[i]\<close> raises \<^verbatim>\<open>IndexError\<close> out of range; \<^verbatim>\<open>fit\<close> trains
  the model object in place, that is the entry \<open>i\<close> of \<^verbatim>\<open>self._shadow_models\<close>.
\<close>

fun train_shadow_models ::
  "('m, 'x, 'y, 'p) estimator \<Rightarrow> real \<Rightarrow> nat \<Rightarrow> 'x list \<Rightarrow> 'y list \<Rightarrow> nat \<Rightarrow> 'm list \<Rightarrow>
   ('x, 'y, 'p) collected \<Rightarrow> ('m, 'x, 'y) ShadowModels \<Rightarrow>
   (error + ('x, 'y, 'p) collected) \<times> ('m, 'x, 'y) ShadowModels" where
  "train_shadow_models E member_ratio shadow_dataset_size x y i [] acc s = (Inr acc, s)"
| "train_shadow_models E member_ratio shadow_dataset_size x y i (shadow_model # rest) acc s =
     (let shadow_x = slice x (shadow_dataset_size * i) (shadow_dataset_size * (i + 1));
          shadow_y = slice y (shadow_dataset_size * i) (shadow_dataset_size * (i + 1));
          shadow_x_train = slice_upto shadow_x (py_int (member_ratio * real shadow_dataset_size));
          shadow_y_train = slice_upto shadow_y (py_int (member_ratio * real shadow_dataset_size));
          shadow_x_test = slice_from shadow_x (py_int (member_ratio * real shadow_dataset_size));
          shadow_y_test = slice_from shadow_y (py_int (member_ratio * real shadow_dataset_size))
      in if length (shadow_models_train_sets s) \<le> i then (Inl IndexError, s)
         else
           let s1 = s\<lparr>shadow_models_train_sets :=
                      (shadow_models_train_sets s)[i := Some (shadow_x_train, shadow_y_train)]\<rparr>;
               fitted = fit E shadow_model shadow_x_train shadow_y_train;
               s2 = s1\<lparr>shadow_models := (shadow_models s1)[i := fitted]\<rparr>;
               acc' = acc\<lparr>
                 member_samples := member_samples acc @ [shadow_x_train],
                 member_true_label := member_true_label acc @ [shadow_y_train],
                 member_prediction := member_prediction acc @ [predict E fitted shadow_x_train],
                 nonmember_samples := nonmember_samples acc @ [shadow_x_test],
                 nonmember_true_label := nonmember_true_label acc @ [shadow_y_test],
                 nonmember_prediction := nonmember_prediction acc @ [predict E fitted shadow_x_test]\<rparr>
           in train_shadow_models E member_ratio shadow_dataset_size x y (i + 1) rest acc' s2)"

text \<open>The concatenation of the six lists into the two returned triples.\<close>

definition concat_results ::
  "('x, 'y, 'p) collected \<Rightarrow>
   error + (('x list \<times> 'y list \<times> 'p list) \<times> ('x list \<times> 'y list \<times> 'p list))" where
  "concat_results acc =
     and_then (reduce_concat (member_samples acc)) (\<lambda>all_member_samples.
     and_then (reduce_concat (member_true_label acc)) (\<lambda>all_member_true_label.
     and_then (reduce_concat (member_prediction acc)) (\<lambda>all_member_prediction.
     and_then (reduce_concat (nonmember_samples acc)) (\<lambda>all_nonmember_samples.
     and_then (reduce_concat (nonmember_true_label acc)) (\<lambda>all_nonmember_true_label.
     and_then (reduce_concat (nonmember_prediction acc)) (\<lambda>all_nonmember_prediction.
       Inr ((all_member_samples, all_member_true_label, all_member_prediction),
            (all_nonmember_samples, all_nonmember_true_label, all_nonmember_prediction))))))))"

text \<open>
  \<^verbatim>\<open>generate_shadow_dataset\<close>. The length check comes first; \<^verbatim>\<open>len(x) // len(self._shadow_models)\<close>
  raises \<^verbatim>\<open>ZeroDivisionError\<close> for an empty pool.
\<close>

definition generate_shadow_dataset ::
  "('m, 'x, 'y, 'p) estimator \<Rightarrow> nat list \<Rightarrow> 'x list \<Rightarrow> 'y list \<Rightarrow> real \<Rightarrow>
   ('m, 'x, 'y) ShadowModels \<Rightarrow>
   (error + (('x list \<times> 'y list \<times> 'p list) \<times> ('x list \<times> 'y list \<times> 'p list))) \<times>
   ('m, 'x, 'y) ShadowModels" where
  "generate_shadow_dataset E random_indices x y member_ratio s =
     (if length x \<noteq> length y then (Inl ValueError, s)
      else
        let xs = map ((!) x) random_indices;
            ys = map ((!) y) random_indices
        in if length (shadow_models s) = 0 then (Inl ZeroDivisionError, s)
           else
             let shadow_dataset_size = length xs div length (shadow_models s)
             in case train_shadow_models E member_ratio shadow_dataset_size xs ys 0
                       (shadow_models s) no_collected s of
                  (Inl e, s') \<Rightarrow> (Inl e, s')
                | (Inr acc, s') \<Rightarrow> (concat_results acc, s'))"



subsection \<open>The record synthesizer\<close>

text \<open>
  A record is a one-dimensional array of floats. \<^verbatim>\<open>a[i]\<close> with an integer index counts a
  negative \<open>i\<close> from the end and raises \<^verbatim>\<open>IndexError\<close> out of range, for a read and for
  a store alike. \<^verbatim>\<open>np.argmax\<close> returns the first position of the maximum and raises
  \<^verbatim>\<open>ValueError\<close> on an empty array.
\<close>

type_synonym ndarray = "real list"

definition py_position :: "'a list \<Rightarrow> int \<Rightarrow> error + nat" where
  "py_position a i =
     (if 0 \<le> i \<and> i < int (length a) then Inr (nat i)
      else if i < 0 \<and> - int (length a) \<le> i then Inr (nat (int (length a) + i))
      else Inl IndexError)"

definition py_index :: "'a list \<Rightarrow> int \<Rightarrow> error + 'a" where
  "py_index a i = and_then (py_position a i) (\<lambda>j. Inr (a ! j))"

definition py_store :: "'a list \<Rightarrow> int \<Rightarrow> 'a \<Rightarrow> error + 'a list" where
  "py_store a i v = and_then (py_position a i) (\<lambda>j. Inr (a[j := v]))"

fun argmax_from :: "nat \<Rightarrow> real \<Rightarrow> nat \<Rightarrow> real list \<Rightarrow> nat" where
  "argmax_from best v i [] = best"
| "argmax_from best v i (w # ws) =
     (if v < w then argmax_from i w (i + 1) ws else argmax_from best v (i + 1) ws)"

definition argmax :: "real list \<Rightarrow> error + nat" where
  "argmax a = (case a of [] \<Rightarrow> Inl ValueError | v # vs \<Rightarrow> Inr (argmax_from 0 v 1 vs))"

text \<open>
  The target classifier, queried on one record: \<^verbatim>\<open>predict(x.reshape(1, -1))[0]\<close> and
  \<^verbatim>\<open>nb_classes\<close>.
\<close>

record target =
  target_predict :: "ndarray \<Rightarrow> real list"
  nb_classes :: int

text \<open>
  The callbacks. A callback may raise, and draws its randomness from the sequence of the
  generator it is given. \<^verbatim>\<open>randomize_features_fn\<close> is called with \<^verbatim>\<open>best_x\<close>, which is
  \<^verbatim>\<open>None\<close> or a record.
\<close>

type_synonym random_record_callback = "generator \<Rightarrow> (error + ndarray) \<times> generator"

type_synonym randomize_features_callback =
  "ndarray option \<Rightarrow> int \<Rightarrow> generator \<Rightarrow> (error + ndarray) \<times> generator"

text \<open>
  \<^verbatim>\<open>rng.integers(low, high)\<close>: a \<^verbatim>\<open>ValueError\<close> for an empty range; the integer is the next
  uniform draw scaled to \<open>[low, high)\<close>.
\<close>

definition rng_integers :: "int \<Rightarrow> int \<Rightarrow> generator \<Rightarrow> (error + int) \<times> generator" where
  "rng_integers low high g =
     (if high \<le> low then (Inl ValueError, g)
      else case rng_random g of (u, g') \<Rightarrow> (Inr (low + \<lfloor>u * real_of_int (high - low)\<rfloor>), g'))"

text \<open>\<^verbatim>\<open>_default_random_record\<close>, for the input shape \<^verbatim>\<open>(n,)\<close>.\<close>

definition default_random_record :: "nat \<Rightarrow> random_record_callback" where
  "default_random_record shape g = (case rng_random_array shape g of (r, g') \<Rightarrow> (Inr r, g'))"

text \<open>
  \<^verbatim>\<open>_default_randomize_features\<close>. \<^verbatim>\<open>record.copy()\<close> raises \<^verbatim>\<open>AttributeError\<close> on \<^verbatim>\<open>None\<close>.
  In \<^verbatim>\<open>new_record[self._rng.integers(0, self._input_shape)] = self._rng.random()\<close> the right-hand
  side is evaluated first.
\<close>

fun default_randomize_loop ::
  "nat \<Rightarrow> nat \<Rightarrow> ndarray \<Rightarrow> generator \<Rightarrow> (error + ndarray) \<times> generator" where
  "default_randomize_loop shape 0 new_record g = (Inr new_record, g)"
| "default_randomize_loop shape (Suc n) new_record g =
     (case rng_random g of (v, g1) \<Rightarrow>
        (case rng_integers 0 (int shape) g1 of
           (Inl e, g2) \<Rightarrow> (Inl e, g2)
         | (Inr j, g2) \<Rightarrow>
             (case py_store new_record j v of
                Inl e \<Rightarrow> (Inl e, g2)
              | Inr stored \<Rightarrow> default_randomize_loop shape n stored g2)))"

definition default_randomize_features :: "nat \<Rightarrow> randomize_features_callback" where
  "default_randomize_features shape record num_features g =
     (case record of
        None \<Rightarrow> (Inl AttributeError, g)
      | Some r \<Rightarrow> default_randomize_loop shape (nat num_features) r g)"

text \<open>
  The local variables of \<^verbatim>\<open>_hill_climbing_synthesis\<close>, with the generator \<^verbatim>\<open>self._rng\<close>.
  \<open>randomize_calls\<close> is a ghost variable the code does not have: the arguments of every
  call of \<^verbatim>\<open>randomize_features_fn\<close> so far, oldest first.
\<close>

record search =
  k_features_randomized :: int
  best_x :: "ndarray option"
  best_class_confidence :: real
  num_rejections :: int
  candidate :: ndarray
  gen :: generator
  randomize_calls :: "(ndarray option \<times> int) list"

definition initial_search :: "int \<Rightarrow> ndarray \<Rightarrow> generator \<Rightarrow> search" where
  "initial_search max_features_randomized first g =
     \<lparr> k_features_randomized = max_features_randomized,
       best_x = None,
       best_class_confidence = 0,
       num_rejections = 0,
       candidate = first,
       gen = g,
       randomize_calls = [] \<rparr>"

text \<open>How one pass through the loop body leaves it.\<close>

datatype flow = Raise error | Return ndarray | Proceed

text \<open>
  The body of the loop up to the call of \<^verbatim>\<open>randomize_features_fn\<close>: the query, and the
  \<^verbatim>\<open>if class_confidence >= best_class_confidence: ... else: ...\<close> statement. In
  \<^verbatim>\<open>class_confidence > min_confidence and np.argmax(y) == wanted_class\<close> the arg-max is computed
  only when the first conjunct holds.
\<close>

definition hill_climbing_decide ::
  "target \<Rightarrow> int \<Rightarrow> real \<Rightarrow> int \<Rightarrow> int \<Rightarrow> search \<Rightarrow> flow \<times> search" where
  "hill_climbing_decide target_classifier wanted_class min_confidence max_rejections
     min_features_randomized st =
     (let y = target_predict target_classifier (candidate st)
      in case py_index y wanted_class of
           Inl e \<Rightarrow> (Raise e, st)
         | Inr class_confidence \<Rightarrow>
             if class_confidence \<ge> best_class_confidence st then
               let improved = st\<lparr>best_x := Some (candidate st),
                                 best_class_confidence := class_confidence,
                                 num_rejections := 0\<rparr>
               in if class_confidence > min_confidence then
                    (case argmax y of
                       Inl e \<Rightarrow> (Raise e, st)
                     | Inr predicted \<Rightarrow>
                         if int predicted = wanted_class then
                           (case rng_random (gen st) of (u, g') \<Rightarrow>
                              if u < class_confidence then (Return (candidate st), st\<lparr>gen := g'\<rparr>)
                              else (Proceed, improved\<lparr>gen := g'\<rparr>))
                         else (Proceed, improved))
                  else (Proceed, improved)
             else
               let rejected = st\<lparr>num_rejections := num_rejections st + 1\<rparr>
               in if num_rejections rejected > max_rejections then
                    let half_current_features = \<lceil>real_of_int (k_features_randomized rejected) / 2\<rceil>
                    in (Proceed,
                        rejected\<lparr>k_features_randomized :=
                                    max min_features_randomized half_current_features,
                                  num_rejections := 0\<rparr>)
                  else (Proceed, rejected))"

text \<open>The whole body: the statement above, then \<^verbatim>\<open>x = randomize_features_fn(best_x, k_features_randomized)\<close>.\<close>

definition hill_climbing_iteration ::
  "target \<Rightarrow> int \<Rightarrow> real \<Rightarrow> int \<Rightarrow> int \<Rightarrow> randomize_features_callback \<Rightarrow> search \<Rightarrow>
   flow \<times> search" where
  "hill_climbing_iteration target_classifier wanted_class min_confidence max_rejections
     min_features_randomized randomize_features_fn st =
     (case hill_climbing_decide target_classifier wanted_class min_confidence max_rejections
             min_features_randomized st of
        (Raise e, st1) \<Rightarrow> (Raise e, st1)
      | (Return r, st1) \<Rightarrow> (Return r, st1)
      | (Proceed, st1) \<Rightarrow>
          (let st2 = st1\<lparr>randomize_calls :=
                           randomize_calls st1 @ [(best_x st1, k_features_randomized st1)]\<rparr>
           in (case randomize_features_fn (best_x st1) (k_features_randomized st1) (gen st2) of
                 (Inl e, g') \<Rightarrow> (Raise e, st2\<lparr>gen := g'\<rparr>)
               | (Inr next_x, g') \<Rightarrow> (Proceed, st2\<lparr>candidate := next_x, gen := g'\<rparr>))))"

text \<open>
  \<^verbatim>\<open>for _ in range(max_iterations): ...\<close> followed by \<^verbatim>\<open>raise RuntimeError(...)\<close>; the
  numeric argument is the number of iterations left.
\<close>

fun hill_climbing_loop ::
  "target \<Rightarrow> int \<Rightarrow> real \<Rightarrow> int \<Rightarrow> int \<Rightarrow> randomize_features_callback \<Rightarrow> nat \<Rightarrow> search \<Rightarrow>
   (error + ndarray) \<times> search" where
  "hill_climbing_loop target_classifier wanted_class min_confidence max_rejections
     min_features_randomized randomize_features_fn 0 st = (Inl RuntimeError, st)"
| "hill_climbing_loop target_classifier wanted_class min_confidence max_rejections
     min_features_randomized randomize_features_fn (Suc n) st =
     (case hill_climbing_iteration target_classifier wanted_class min_confidence max_rejections
             min_features_randomized randomize_features_fn st of
        (Raise e, st') \<Rightarrow> (Inl e, st')
      | (Return r, st') \<Rightarrow> (Inr r, st')
      | (Proceed, st') \<Rightarrow>
          hill_climbing_loop target_classifier wanted_class min_confidence max_rejections
            min_features_randomized randomize_features_fn n st')"

text \<open>
  \<^verbatim>\<open>if random_record_fn is None: random_record_fn = self._default_random_record\<close>, and the same
  for \<^verbatim>\<open>randomize_features_fn\<close>.
\<close>

definition random_record_or_default ::
  "nat \<Rightarrow> random_record_callback option \<Rightarrow> random_record_callback" where
  "random_record_or_default shape random_record_fn =
     (case random_record_fn of None \<Rightarrow> default_random_record shape | Some f \<Rightarrow> f)"

definition randomize_features_or_default ::
  "nat \<Rightarrow> randomize_features_callback option \<Rightarrow> randomize_features_callback" where
  "randomize_features_or_default shape randomize_features_fn =
     (case randomize_features_fn of None \<Rightarrow> default_randomize_features shape | Some f \<Rightarrow> f)"

text \<open>
  \<^verbatim>\<open>_hill_climbing_synthesis\<close>; what the call leaves behind in the object is the state of
  \<^verbatim>\<open>self._rng\<close>.
\<close>

definition hill_climbing_synthesis ::
  "target \<Rightarrow> int \<Rightarrow> real \<Rightarrow> int \<Rightarrow> int \<Rightarrow> int \<Rightarrow> int \<Rightarrow>
   random_record_callback option \<Rightarrow> randomize_features_callback option \<Rightarrow>
   ('m, 'x, 'y) ShadowModels \<Rightarrow> (error + ndarray) \<times> ('m, 'x, 'y) ShadowModels" where
  "hill_climbing_synthesis target_classifier wanted_class min_confidence max_features_randomized
     max_iterations max_rejections min_features_randomized random_record_fn randomize_features_fn s =
     (case random_record_or_default (input_shape s) random_record_fn (rng s) of
        (Inl e, g) \<Rightarrow> (Inl e, s\<lparr>rng := g\<rparr>)
      | (Inr first, g) \<Rightarrow>
          (case hill_climbing_loop target_classifier wanted_class min_confidence max_rejections
                  min_features_randomized
                  (randomize_features_or_default (input_shape s) randomize_features_fn)
                  (nat max_iterations) (initial_search max_features_randomized first g) of
             (outcome, st) \<Rightarrow> (outcome, s\<lparr>rng := gen st\<rparr>)))"

subsection \<open>The synthetic shadow dataset\<close>

text \<open>
  The loop \<^verbatim>\<open>for tries in range(max_retries)\<close> around the call of
  \<^verbatim>\<open>_hill_climbing_synthesis\<close>, which runs with the default \<^verbatim>\<open>max_iterations=40\<close>,
  \<^verbatim>\<open>max_rejections=3\<close> and \<^verbatim>\<open>min_features_randomized=1\<close>. The list argument holds the values
  of \<^verbatim>\<open>tries\<close> still to come. Only a \<^verbatim>\<open>RuntimeError\<close> is caught. The variable
  \<^verbatim>\<open>random_record\<close> is unbound (\<open>None\<close>) until a synthesis has succeeded.
\<close>

fun synthesis_tries ::
  "target \<Rightarrow> int \<Rightarrow> real \<Rightarrow> int \<Rightarrow> int \<Rightarrow>
   random_record_callback option \<Rightarrow> randomize_features_callback option \<Rightarrow>
   nat list \<Rightarrow> ndarray option \<Rightarrow> ('m, 'x, 'y) ShadowModels \<Rightarrow>
   (error + ndarray option) \<times> ('m, 'x, 'y) ShadowModels" where
  "synthesis_tries target_classifier wanted_class min_confidence max_features_randomized
     max_retries random_record_fn randomize_features_fn [] random_record s =
     (Inr random_record, s)"
| "synthesis_tries target_classifier wanted_class min_confidence max_features_randomized
     max_retries random_record_fn randomize_features_fn (tries # later) random_record s =
     (case hill_climbing_synthesis target_classifier wanted_class min_confidence
             max_features_randomized 40 3 1 random_record_fn randomize_features_fn s of
        (Inr found, s') \<Rightarrow> (Inr (Some found), s')
      | (Inl err, s') \<Rightarrow>
          if err = RuntimeError then
            (if int tries = max_retries - 1 then (Inl err, s')
             else synthesis_tries target_classifier wanted_class min_confidence
                    max_features_randomized max_retries random_record_fn randomize_features_fn
                    later random_record s')
          else (Inl err, s'))"

text \<open>
  The loop \<^verbatim>\<open>for _ in range(records_per_class)\<close>; the numeric argument is the number of
  records still to synthesize, and the triple holds the local variables \<^verbatim>\<open>x\<close>, \<^verbatim>\<open>y\<close> and
  \<^verbatim>\<open>random_record\<close>. Reading an unbound \<^verbatim>\<open>random_record\<close> raises \<^verbatim>\<open>UnboundLocalError\<close>.
\<close>

fun synthesize_records ::
  "target \<Rightarrow> int \<Rightarrow> real \<Rightarrow> int \<Rightarrow> int \<Rightarrow>
   random_record_callback option \<Rightarrow> randomize_features_callback option \<Rightarrow>
   real list \<Rightarrow> nat \<Rightarrow> ndarray list \<times> real list list \<times> ndarray option \<Rightarrow>
   ('m, 'x, 'y) ShadowModels \<Rightarrow>
   (error + ndarray list \<times> real list list \<times> ndarray option) \<times> ('m, 'x, 'y) ShadowModels" where
  "synthesize_records target_classifier wanted_class min_confidence max_features_randomized
     max_retries random_record_fn randomize_features_fn one_hot_label 0 vars s = (Inr vars, s)"
| "synthesize_records target_classifier wanted_class min_confidence max_features_randomized
     max_retries random_record_fn randomize_features_fn one_hot_label (Suc n)
     (x, y, random_record) s =
     (case synthesis_tries target_classifier wanted_class min_confidence max_features_randomized
             max_retries random_record_fn randomize_features_fn (py_range max_retries)
             random_record s of
        (Inl e, s') \<Rightarrow> (Inl e, s')
      | (Inr None, s') \<Rightarrow> (Inl UnboundLocalError, s')
      | (Inr (Some found), s') \<Rightarrow>
          synthesize_records target_classifier wanted_class min_confidence
            max_features_randomized max_retries random_record_fn randomize_features_fn
            one_hot_label n (x @ [found], y @ [one_hot_label], Some found) s')"

text \<open>\<^verbatim>\<open>np.zeros(nb_classes)\<close> with \<^verbatim>\<open>one_hot_label[wanted_class] = 1.0\<close>.\<close>

definition one_hot :: "int \<Rightarrow> nat \<Rightarrow> real list" where
  "one_hot nb wanted_class = (replicate (nat nb) 0)[wanted_class := 1]"

text \<open>
  The loop \<^verbatim>\<open>for wanted_class in range(target_classifier.nb_classes)\<close>; the list argument
  holds the classes still to come.
\<close>

fun synthesize_classes ::
  "target \<Rightarrow> real \<Rightarrow> int \<Rightarrow> int \<Rightarrow>
   random_record_callback option \<Rightarrow> randomize_features_callback option \<Rightarrow>
   int \<Rightarrow> nat list \<Rightarrow> ndarray list \<times> real list list \<times> ndarray option \<Rightarrow>
   ('m, 'x, 'y) ShadowModels \<Rightarrow>
   (error + ndarray list \<times> real list list \<times> ndarray option) \<times> ('m, 'x, 'y) ShadowModels" where
  "synthesize_classes target_classifier min_confidence max_features_randomized max_retries
     random_record_fn randomize_features_fn records_per_class [] vars s = (Inr vars, s)"
| "synthesize_classes target_classifier min_confidence max_features_randomized max_retries
     random_record_fn randomize_features_fn records_per_class (wanted_class # later) vars s =
     (let one_hot_label = one_hot (nb_classes target_classifier) wanted_class
      in case synthesize_records target_classifier (int wanted_class) min_confidence
                max_features_randomized max_retries random_record_fn randomize_features_fn
                one_hot_label (nat records_per_class) vars s of
           (Inl e, s') \<Rightarrow> (Inl e, s')
         | (Inr vars', s') \<Rightarrow>
             synthesize_classes target_classifier min_confidence max_features_randomized
               max_retries random_record_fn randomize_features_fn records_per_class later vars' s')"

text \<open>
  \<^verbatim>\<open>generate_synthetic_shadow_dataset\<close> up to its last statement: the lists \<^verbatim>\<open>x\<close> and \<^verbatim>\<open>y\<close>
  it has built. \<^verbatim>\<open>dataset_size // target_classifier.nb_classes\<close> raises
  \<^verbatim>\<open>ZeroDivisionError\<close> for a classifier without classes.
\<close>

definition synthesize_dataset ::
  "target \<Rightarrow> int \<Rightarrow> int \<Rightarrow> real \<Rightarrow> int \<Rightarrow>
   random_record_callback option \<Rightarrow> randomize_features_callback option \<Rightarrow>
   ('m, 'x, 'y) ShadowModels \<Rightarrow>
   (error + ndarray list \<times> real list list) \<times> ('m, 'x, 'y) ShadowModels" where
  "synthesize_dataset target_classifier dataset_size max_features_randomized min_confidence
     max_retries random_record_fn randomize_features_fn s =
     (if nb_classes target_classifier = 0 then (Inl ZeroDivisionError, s)
      else
        let records_per_class = dataset_size div nb_classes target_classifier
        in case synthesize_classes target_classifier min_confidence max_features_randomized
                  max_retries random_record_fn randomize_features_fn records_per_class
                  (py_range (nb_classes target_classifier)) ([], [], None) s of
             (Inl e, s') \<Rightarrow> (Inl e, s')
           | (Inr (x, y, random_record), s') \<Rightarrow> (Inr (x, y), s'))"

text \<open>
  \<^verbatim>\<open>generate_synthetic_shadow_dataset\<close>: the synthetic lists go to
  \<^verbatim>\<open>generate_shadow_dataset\<close> as they are.
\<close>

definition generate_synthetic_shadow_dataset ::
  "('m, ndarray, real list, 'p) estimator \<Rightarrow> target \<Rightarrow> nat list \<Rightarrow> int \<Rightarrow> int \<Rightarrow> real \<Rightarrow>
   real \<Rightarrow> int \<Rightarrow> random_record_callback option \<Rightarrow> randomize_features_callback option \<Rightarrow>
   ('m, ndarray, real list) ShadowModels \<Rightarrow>
   (error + ((ndarray list \<times> real list list \<times> 'p list) \<times>
             (ndarray list \<times> real list list \<times> 'p list))) \<times>
   ('m, ndarray, real list) ShadowModels" where
  "generate_synthetic_shadow_dataset E target_classifier random_indices dataset_size
     max_features_randomized member_ratio min_confidence max_retries random_record_fn
     randomize_features_fn s =
     (case synthesize_dataset target_classifier dataset_size max_features_randomized
             min_confidence max_retries random_record_fn randomize_features_fn s of
        (Inl e, s') \<Rightarrow> (Inl e, s')
      | (Inr (x, y), s') \<Rightarrow> generate_shadow_dataset E random_indices x y member_ratio s')"

subsection \<open>Notions the properties are stated with\<close>

text \<open>
  The search state after \<open>n\<close> iterations of the hill-climbing loop none of which has
  returned or raised; \<open>None\<close> when one of them has.
\<close>

fun hill_climbing_proceeds ::
  "target \<Rightarrow> int \<Rightarrow> real \<Rightarrow> int \<Rightarrow> int \<Rightarrow> randomize_features_callback \<Rightarrow> nat \<Rightarrow> search \<Rightarrow>
   search option" where
  "hill_climbing_proceeds target_classifier wanted_class min_confidence max_rejections
     min_features_randomized randomize_features_fn 0 st = Some st"
| "hill_climbing_proceeds target_classifier wanted_class min_confidence max_rejections
     min_features_randomized randomize_features_fn (Suc n) st =
     (case hill_climbing_iteration target_classifier wanted_class min_confidence max_rejections
             min_features_randomized randomize_features_fn st of
        (Proceed, st') \<Rightarrow>
          hill_climbing_proceeds target_classifier wanted_class min_confidence max_rejections
            min_features_randomized randomize_features_fn n st'
      | (Raise e, st') \<Rightarrow> None
      | (Return r, st') \<Rightarrow> None)"

text \<open>
  The object after \<open>n\<close> calls of \<^verbatim>\<open>_hill_climbing_synthesis\<close> in a row, as the retry loop
  makes them, each of which has raised \<^verbatim>\<open>RuntimeError\<close>; \<open>None\<close> when one of them has not.
\<close>

fun failed_tries ::
  "target \<Rightarrow> int \<Rightarrow> real \<Rightarrow> int \<Rightarrow>
   random_record_callback option \<Rightarrow> randomize_features_callback option \<Rightarrow>
   nat \<Rightarrow> ('m, 'x, 'y) ShadowModels \<Rightarrow> ('m, 'x, 'y) ShadowModels option" where
  "failed_tries target_classifier wanted_class min_confidence max_features_randomized
     random_record_fn randomize_features_fn 0 s = Some s"
| "failed_tries target_classifier wanted_class min_confidence max_features_randomized
     random_record_fn randomize_features_fn (Suc n) s =
     (case hill_climbing_synthesis target_classifier wanted_class min_confidence
             max_features_randomized 40 3 1 random_record_fn randomize_features_fn s of
        (Inl err, s') \<Rightarrow>
          if err = RuntimeError then
            failed_tries target_classifier wanted_class min_confidence max_features_randomized
              random_record_fn randomize_features_fn n s'
          else None
      | (Inr found, s') \<Rightarrow> None)"

text \<open>
  The block of shadow model \<open>i\<close>, its training prefix and its test suffix, as the loop
  body computes them.
\<close>

definition shadow_block :: "nat \<Rightarrow> 'a list \<Rightarrow> nat \<Rightarrow> 'a list" where
  "shadow_block shadow_dataset_size a i =
     slice a (shadow_dataset_size * i) (shadow_dataset_size * (i + 1))"

definition train_part :: "real \<Rightarrow> nat \<Rightarrow> 'a list \<Rightarrow> nat \<Rightarrow> 'a list" where
  "train_part member_ratio shadow_dataset_size a i =
     slice_upto (shadow_block shadow_dataset_size a i)
       (py_int (member_ratio * real shadow_dataset_size))"

definition test_part :: "real \<Rightarrow> nat \<Rightarrow> 'a list \<Rightarrow> nat \<Rightarrow> 'a list" where
  "test_part member_ratio shadow_dataset_size a i =
     slice_from (shadow_block shadow_dataset_size a i)
       (py_int (member_ratio * real shadow_dataset_size))"


text \<open>
  No call of \<^verbatim>\<open>randomize_features_fn\<close> so far has received \<^verbatim>\<open>None\<close>, and while no best
  record is known the candidate is one the next decision adopts.
\<close>

definition record_known :: "target \<Rightarrow> int \<Rightarrow> search \<Rightarrow> bool" where
  "record_known T w st \<longleftrightarrow>
     (\<forall>c \<in> set (randomize_calls st). fst c \<noteq> None) \<and>
     (best_x st = None \<longrightarrow>
        (\<forall>conf. py_index (target_predict T (candidate st)) w = Inr conf \<longrightarrow>
           best_class_confidence st \<le> conf))"

subsection \<open>A toy pool\<close>

definition toy_estimator :: "(nat, int, int, int) estimator" where
  "toy_estimator =
     \<lparr> clone_for_refitting = (\<lambda>m. 0),
       template_input_shape = (\<lambda>m. 4),
       fit = (\<lambda>m xs ys. length xs),
       predict = (\<lambda>m xs. map (\<lambda>v. v + int m) xs) \<rparr>"

definition toy_pool :: "(nat, int, int) ShadowModels" where
  "toy_pool = init toy_estimator 7 2 (\<lambda>n. 0)"

definition toy_x :: "int list" where
  "toy_x = [10, 11, 12, 13, 14, 15, 16, 17, 18, 19]"

definition toy_y :: "int list" where
  "toy_y = [0, 1, 0, 1, 0, 1, 0, 1, 0, 1]"

definition toy_indices :: "nat list" where
  "toy_indices = [9, 8, 7, 6, 5, 4, 3, 2, 1, 0]"

subsection \<open>A toy target classifier\<close>

definition toy_target :: target where
  "toy_target =
     \<lparr> target_predict =
         (\<lambda>r. if r = [0] then [9 / 10, 1 / 10]
              else if r = [1] then [1 / 10, 9 / 10]
              else if r = [2] then [1 / 5, 4 / 5]
              else [- 1, 2]),
       nb_classes = 2 \<rparr>"

definition always_record :: "ndarray \<Rightarrow> random_record_callback" where
  "always_record r g = (Inr r, g)"

definition always_randomized :: "ndarray \<Rightarrow> randomize_features_callback" where
  "always_randomized r best k g = (Inr r, g)"

definition low_draws :: generator where
  "low_draws = default_rng (\<lambda>n. 1 / 10)"

definition high_draws :: generator where
  "high_draws = default_rng (\<lambda>n. 19 / 20)"

definition high_then_low_draws :: generator where
  "high_then_low_draws = default_rng (\<lambda>n. if n = 0 then 19 / 20 else 1 / 10)"

definition toy_synthetic_estimator :: "(nat, ndarray, real list, real list) estimator" where
  "toy_synthetic_estimator =
     \<lparr> clone_for_refitting = (\<lambda>m. 0),
       template_input_shape = (\<lambda>m. 1),
       fit = (\<lambda>m xs ys. length xs),
       predict = (\<lambda>m xs. map (\<lambda>r. [1 / 2, 1 / 2]) xs) \<rparr>"

definition toy_synthetic_pool :: "generator \<Rightarrow> (nat, ndarray, real list) ShadowModels" where
  "toy_synthetic_pool g = (init toy_synthetic_estimator 0 2 (draws g))\<lparr>rng := g\<rparr>"

text \<open>
  Two states of searches on the toy target, each after one iteration: the first record
  was adopted as the best one and the next candidate is about to be judged.
\<close>

definition toy_second_state :: search where
  "toy_second_state =
     \<lparr> k_features_randomized = 1, best_x = Some [1], best_class_confidence = 9 / 10,
       num_rejections = 0, candidate = [2],
       gen = high_then_low_draws\<lparr>consumed := 1\<rparr>, randomize_calls = [(Some [1], 1)] \<rparr>"

definition toy_improved_state :: search where
  "toy_improved_state =
     \<lparr> k_features_randomized = 1, best_x = Some [0], best_class_confidence = 1 / 10,
       num_rejections = 0, candidate = [1],
       gen = low_draws, randomize_calls = [(Some [0], 1)] \<rparr>"

section \<open>Properties of the shadow-dataset assembly\<close>

lemma length_slice_parts:
  "length (slice_upto a k) + length (slice_from a k) = length a"
  by (simp add: slice_upto_def slice_from_def)

lemma length_slice:
  "hi \<le> length a \<Longrightarrow> length (slice a lo hi) = hi - lo"
  by (simp add: slice_def)

lemma reduce_concat_nonempty:
  "parts \<noteq> [] \<Longrightarrow> reduce_concat parts = Inr (concat parts)"
proof -
  have fold_app: "foldl (@) a as = a @ concat as" for a :: "'a list" and as
    by (induction as arbitrary: a) simp_all
  show "parts \<noteq> [] \<Longrightarrow> reduce_concat parts = Inr (concat parts)"
    by (cases parts) (simp_all add: reduce_concat_def fold_app)
qed

lemma train_shadow_models_collected:
  assumes "i + length ms \<le> length (shadow_models_train_sets s)"
  shows "\<exists>acc' s'. train_shadow_models E r n x y i ms acc s = (Inr acc', s') \<and>
     member_samples acc' = member_samples acc @ map (train_part r n x) [i..<i + length ms] \<and>
     nonmember_samples acc' = nonmember_samples acc @ map (test_part r n x) [i..<i + length ms] \<and>
     length (member_true_label acc') = length (member_true_label acc) + length ms \<and>
     length (member_prediction acc') = length (member_prediction acc) + length ms \<and>
     length (nonmember_true_label acc') = length (nonmember_true_label acc) + length ms \<and>
     length (nonmember_prediction acc') = length (nonmember_prediction acc) + length ms"
  using assms
proof (induction ms arbitrary: i acc s)
  case Nil
  then show ?case by simp
next
  case (Cons m ms)
  let ?xt = "train_part r n x i" and ?yt = "train_part r n y i"
  let ?xe = "test_part r n x i" and ?ye = "test_part r n y i"
  let ?s2 = "s\<lparr>shadow_models_train_sets := (shadow_models_train_sets s)[i := Some (?xt, ?yt)],
               shadow_models := (shadow_models s)[i := fit E m ?xt ?yt]\<rparr>"
  let ?acc = "acc\<lparr>
                 member_samples := member_samples acc @ [?xt],
                 member_true_label := member_true_label acc @ [?yt],
                 member_prediction := member_prediction acc @ [predict E (fit E m ?xt ?yt) ?xt],
                 nonmember_samples := nonmember_samples acc @ [?xe],
                 nonmember_true_label := nonmember_true_label acc @ [?ye],
                 nonmember_prediction := nonmember_prediction acc @ [predict E (fit E m ?xt ?yt) ?xe]\<rparr>"
  have inr: "\<not> length (shadow_models_train_sets s) \<le> i" using Cons.prems by simp
  have step: "train_shadow_models E r n x y i (m # ms) acc s =
              train_shadow_models E r n x y (i + 1) ms ?acc ?s2"
    using inr by (simp add: Let_def train_part_def test_part_def shadow_block_def)
  have "(i + 1) + length ms \<le> length (shadow_models_train_sets ?s2)"
    using Cons.prems by simp
  from Cons.IH[OF this, of ?acc] obtain acc' s' where
    r: "train_shadow_models E r n x y (i + 1) ms ?acc ?s2 = (Inr acc', s')"
    and a: "member_samples acc' = member_samples ?acc @ map (train_part r n x) [i + 1..<i + 1 + length ms]"
      "nonmember_samples acc' = nonmember_samples ?acc @ map (test_part r n x) [i + 1..<i + 1 + length ms]"
      "length (member_true_label acc') = length (member_true_label ?acc) + length ms"
      "length (member_prediction acc') = length (member_prediction ?acc) + length ms"
      "length (nonmember_true_label acc') = length (nonmember_true_label ?acc) + length ms"
      "length (nonmember_prediction acc') = length (nonmember_prediction ?acc) + length ms"
    by blast
  have up: "[i..<i + length (m # ms)] = i # [i + 1..<i + 1 + length ms]"
    using upt_conv_Cons[of i "Suc (i + length ms)"] by simp
  show ?case
    unfolding step r up using a by simp
qed


lemma length_shadow_block:
  "n * (i + 1) \<le> length a \<Longrightarrow> length (shadow_block n a i) = n"
  by (simp add: shadow_block_def length_slice)

lemma length_train_test:
  "length (train_part r n a i) + length (test_part r n a i) = length (shadow_block n a i)"
  by (simp add: train_part_def test_part_def length_slice_parts)

lemma length_concat_blocks:
  assumes "n * k \<le> length a"
  shows "length (concat (map (train_part r n a) [0..<k])) +
         length (concat (map (test_part r n a) [0..<k])) = k * n"
  using assms
proof (induction k)
  case 0
  then show ?case by simp
next
  case (Suc k)
  have "n * k \<le> length a" using Suc.prems by (simp add: algebra_simps)
  moreover have "length (train_part r n a k) + length (test_part r n a k) = n"
    using Suc.prems by (simp add: length_train_test length_shadow_block)
  ultimately show ?case using Suc.IH by simp
qed


lemma toy_pool_eq:
  "toy_pool = \<lparr> shadow_models = [0, 0], shadow_models_train_sets = [None, None],
                input_shape = 4, rng = \<lparr> draws = (\<lambda>n. 0), consumed = 0 \<rparr> \<rparr>"
  by (simp add: toy_pool_def init_def toy_estimator_def py_range_def upt_rec numeral_2_eq_2 default_rng_def)

lemma toy_indices_perm: "mset toy_indices = mset [0..<length toy_x]"
proof -
  have "[0..<length toy_x] = [0, 1, 2, 3, 4, 5, 6, 7, 8, 9]"
    unfolding toy_x_def by code_simp
  then show ?thesis by (simp add: toy_indices_def)
qed

lemma length_permuted:
  "mset random_indices = mset [0..<k] \<Longrightarrow> length (map f random_indices) = k"
  using mset_eq_length[of random_indices "[0..<k]"] by simp

text \<open>
  Claim C3. For a pool of \<open>N \<ge> 1\<close> shadow models and a dataset with \<open>len(x) = len(y)\<close>,
  \<^verbatim>\<open>generate_shadow_dataset\<close> returns, and the member and nonmember samples it returns
  number \<open>N * (len(x) // N)\<close> together, whatever the member ratio: the remainder of the
  division is dropped.
\<close>

theorem generate_shadow_dataset_sample_count:
  assumes "1 \<le> length (shadow_models s)"
    and "length (shadow_models_train_sets s) = length (shadow_models s)"
    and "length x = length y"
    and "mset random_indices = mset [0..<length x]"
  shows "\<exists>members nonmembers s'.
     generate_shadow_dataset E random_indices x y member_ratio s = (Inr (members, nonmembers), s') \<and>
     length (fst members) + length (fst nonmembers) =
       length (shadow_models s) * (length x div length (shadow_models s))"
proof -
  let ?N = "length (shadow_models s)"
  let ?xs = "map ((!) x) random_indices" and ?ys = "map ((!) y) random_indices"
  let ?n = "length ?xs div ?N"
  have lx: "length ?xs = length x" using assms(4) by (rule length_permuted)
  have "0 + length (shadow_models s) \<le> length (shadow_models_train_sets s)"
    using assms(2) by simp
  from train_shadow_models_collected[OF this, of E member_ratio ?n ?xs ?ys no_collected]
  obtain acc s' where
    run: "train_shadow_models E member_ratio ?n ?xs ?ys 0 (shadow_models s) no_collected s = (Inr acc, s')"
    and ms: "member_samples acc = map (train_part member_ratio ?n ?xs) [0..<?N]"
    and ns: "nonmember_samples acc = map (test_part member_ratio ?n ?xs) [0..<?N]"
    and l1: "length (member_true_label acc) = ?N"
    and l2: "length (member_prediction acc) = ?N"
    and l3: "length (nonmember_true_label acc) = ?N"
    and l4: "length (nonmember_prediction acc) = ?N"
    by (auto simp: no_collected_def)
  have ne: "member_samples acc \<noteq> []" "nonmember_samples acc \<noteq> []"
    "member_true_label acc \<noteq> []" "member_prediction acc \<noteq> []"
    "nonmember_true_label acc \<noteq> []" "nonmember_prediction acc \<noteq> []"
    using assms(1) ms ns l1 l2 l3 l4 by auto
  have cr: "concat_results acc =
     Inr ((concat (member_samples acc), concat (member_true_label acc), concat (member_prediction acc)),
          (concat (nonmember_samples acc), concat (nonmember_true_label acc),
           concat (nonmember_prediction acc)))"
    using ne by (simp add: concat_results_def reduce_concat_nonempty and_then_def)
  have res: "generate_shadow_dataset E random_indices x y member_ratio s = (concat_results acc, s')"
    using assms(1,3) run by (auto simp: generate_shadow_dataset_def Let_def)
  have "?n * ?N \<le> length ?xs" by simp
  from length_concat_blocks[OF this, of member_ratio]
  have "length (concat (member_samples acc)) + length (concat (nonmember_samples acc)) = ?N * ?n"
    unfolding ms ns .
  then show ?thesis
    unfolding res cr lx by simp
qed

theorem generate_shadow_dataset_sample_count_witness:
  "\<exists>members nonmembers s'.
     generate_shadow_dataset toy_estimator toy_indices toy_x toy_y (1 / 2) toy_pool =
       (Inr (members, nonmembers), s') \<and>
     length (fst members) + length (fst nonmembers) = 10"
proof -
  have h1: "1 \<le> length (shadow_models toy_pool)" by (simp add: toy_pool_eq)
  have h2: "length (shadow_models_train_sets toy_pool) = length (shadow_models toy_pool)"
    by (simp add: toy_pool_eq)
  have h3: "length toy_x = length toy_y" by (simp add: toy_x_def toy_y_def)
  have lx: "length toy_x = 10" by (simp add: toy_x_def)
  have lm: "length (shadow_models toy_pool) = 2" by (simp add: toy_pool_eq)
  from generate_shadow_dataset_sample_count[OF h1 h2 h3 toy_indices_perm, of toy_estimator "1 / 2"]
  show ?thesis unfolding lx lm by simp
qed

text \<open>
  Claim C5. With \<open>len(x) \<noteq> len(y)\<close>, \<^verbatim>\<open>generate_shadow_dataset\<close> raises \<^verbatim>\<open>ValueError\<close> and
  leaves the object as it was: no shadow model is fitted and no training-set slot is
  overwritten.
\<close>

theorem generate_shadow_dataset_length_mismatch:
  assumes "length x \<noteq> length y"
  shows "generate_shadow_dataset E random_indices x y member_ratio s = (Inl ValueError, s)"
  using assms by (simp add: generate_shadow_dataset_def)

theorem generate_shadow_dataset_length_mismatch_witness:
  "generate_shadow_dataset toy_estimator [2, 0, 1] [10, 11, 12] [0, 1] (1 / 2) toy_pool =
     (Inl ValueError, toy_pool)"
  using generate_shadow_dataset_length_mismatch[of "[10, 11, 12]" "[0, 1]" toy_estimator "[2, 0, 1]" "1 / 2" toy_pool]
  by simp


lemma init_invariant:
  "length (shadow_models_train_sets (init E template n seed)) =
   length (shadow_models (init E template n seed))"
  by (simp add: init_def py_range_def)




section \<open>Properties of the hill-climbing search\<close>

lemmas toy_run_defs =
  hill_climbing_iteration_def hill_climbing_decide_def Let_def toy_target_def
  initial_search_def py_index_def py_position_def and_then_def argmax_def rng_random_def
  high_then_low_draws_def low_draws_def high_draws_def default_rng_def always_randomized_def
  always_record_def

lemma decide_below_best:
  assumes "py_index (target_predict T (candidate st)) w = Inr conf"
    and "conf < best_class_confidence st"
  shows "hill_climbing_decide T w mc mr mf st =
     (Proceed,
      if mr < num_rejections st + 1
      then st\<lparr>num_rejections := num_rejections st + 1,
              k_features_randomized := max mf \<lceil>real_of_int (k_features_randomized st) / 2\<rceil>,
              num_rejections := 0\<rparr>
      else st\<lparr>num_rejections := num_rejections st + 1\<rparr>)"
  using assms by (simp add: hill_climbing_decide_def Let_def)

lemma decide_at_least_best:
  assumes "py_index (target_predict T (candidate st)) w = Inr conf"
    and "best_class_confidence st \<le> conf"
  shows "hill_climbing_decide T w mc mr mf st =
     (if mc < conf \<and> argmax (target_predict T (candidate st)) = Inr (nat w) \<and> 0 \<le> w
      then if fst (rng_random (gen st)) < conf
           then (Return (candidate st), st\<lparr>gen := snd (rng_random (gen st))\<rparr>)
           else (Proceed, st\<lparr>best_x := Some (candidate st), best_class_confidence := conf,
                              num_rejections := 0, gen := snd (rng_random (gen st))\<rparr>)
      else (Proceed, st\<lparr>best_x := Some (candidate st), best_class_confidence := conf,
                         num_rejections := 0\<rparr>))"
proof -
  have ne: "target_predict T (candidate st) \<noteq> []"
    using assms(1) by (auto simp: py_index_def py_position_def and_then_def split: if_splits)
  then obtain a where a: "argmax (target_predict T (candidate st)) = Inr a"
    by (cases "target_predict T (candidate st)") (simp_all add: argmax_def)
  show ?thesis
    using assms a
    by (auto simp: hill_climbing_decide_def Let_def split: prod.splits)
qed

lemma decide_raises:
  assumes "py_index (target_predict T (candidate st)) w = Inl e"
  shows "hill_climbing_decide T w mc mr mf st = (Raise e, st)"
  using assms by (simp add: hill_climbing_decide_def Let_def)

lemma loop_return:
  assumes "hill_climbing_decide T w mc mr mf st = (Return r, st')"
  shows "hill_climbing_loop T w mc mr mf rf (Suc n) st = (Inr r, st')"
  using assms by (simp add: hill_climbing_iteration_def)

text \<open>
  Claim C1, as amended. In every iteration whose query succeeds, the record is returned
  exactly when its confidence is at least the best-known confidence, exceeds
  \<^verbatim>\<open>min_confidence\<close>, the wanted class is the arg-max and the next uniform draw of the
  generator is below the confidence (so with probability equal to the confidence, for a
  uniform draw); the search then ends returning that record. A candidate whose confidence
  is below the best-known confidence is never tested for acceptance: the iteration goes
  on, no draw is made and the best record stays.
\<close>

theorem acceptance_test:
  assumes "py_index (target_predict T (candidate st)) w = Inr conf"
  shows "((\<exists>r. fst (hill_climbing_decide T w mc mr mf st) = Return r) \<longleftrightarrow>
            best_class_confidence st \<le> conf \<and> mc < conf \<and>
            argmax (target_predict T (candidate st)) = Inr (nat w) \<and> 0 \<le> w \<and>
            fst (rng_random (gen st)) < conf) \<and>
         (\<forall>r. fst (hill_climbing_decide T w mc mr mf st) = Return r \<longrightarrow>
            r = candidate st \<and>
            hill_climbing_loop T w mc mr mf rf (Suc n) st =
              (Inr (candidate st), st\<lparr>gen := snd (rng_random (gen st))\<rparr>)) \<and>
         (conf < best_class_confidence st \<longrightarrow>
            fst (hill_climbing_decide T w mc mr mf st) = Proceed \<and>
            gen (snd (hill_climbing_decide T w mc mr mf st)) = gen st \<and>
            best_x (snd (hill_climbing_decide T w mc mr mf st)) = best_x st)"
proof (cases "conf < best_class_confidence st")
  case True
  show ?thesis
    using True by (simp add: decide_below_best[OF assms True])
next
  case False
  then have ge: "best_class_confidence st \<le> conf" by simp
  show ?thesis
    using False ge by (auto simp: decide_at_least_best[OF assms ge] hill_climbing_iteration_def)
qed

theorem acceptance_test_witness:
  "hill_climbing_loop toy_target 1 (2 / 5) 3 1 (always_randomized [2]) (Suc 0)
     (initial_search 1 [1] low_draws) =
     (Inr [1], (initial_search 1 [1] low_draws)\<lparr>gen := snd (rng_random low_draws)\<rparr>) \<and>
   fst (hill_climbing_decide toy_target 1 (2 / 5) 3 1 toy_second_state) = Proceed \<and>
   gen (snd (hill_climbing_decide toy_target 1 (2 / 5) 3 1 toy_second_state)) = gen toy_second_state"
proof -
  let ?st = "initial_search 1 [1] low_draws"
  have h: "py_index (target_predict toy_target (candidate ?st)) 1 = Inr (9 / 10)"
    by (simp add: toy_run_defs)
  note t = acceptance_test[OF h, where mc = "2 / 5" and mr = 3 and mf = 1
      and rf = "always_randomized [2]" and n = 0]
  have "best_class_confidence ?st \<le> 9 / 10 \<and> (2 / 5 :: real) < 9 / 10 \<and>
      argmax (target_predict toy_target (candidate ?st)) = Inr (nat 1) \<and> (0::int) \<le> 1 \<and>
      fst (rng_random (gen ?st)) < 9 / 10"
    by (simp add: toy_run_defs)
  with t obtain r where "fst (hill_climbing_decide toy_target 1 (2 / 5) 3 1 ?st) = Return r"
    by blast
  with t have a: "hill_climbing_loop toy_target 1 (2 / 5) 3 1 (always_randomized [2]) (Suc 0) ?st =
      (Inr (candidate ?st), ?st\<lparr>gen := snd (rng_random (gen ?st))\<rparr>)"
    by blast
  have h2: "py_index (target_predict toy_target (candidate toy_second_state)) 1 = Inr (4 / 5)"
    by (simp add: toy_run_defs toy_second_state_def)
  have "(4 / 5 :: real) < best_class_confidence toy_second_state"
    by (simp add: toy_second_state_def)
  with acceptance_test[OF h2, where mc = "2 / 5" and mr = 3 and mf = 1]
  have b: "fst (hill_climbing_decide toy_target 1 (2 / 5) 3 1 toy_second_state) = Proceed \<and>
   gen (snd (hill_climbing_decide toy_target 1 (2 / 5) 3 1 toy_second_state)) = gen toy_second_state"
    by blast
  have "candidate ?st = [1]" "gen ?st = low_draws" by (simp_all add: initial_search_def)
  with a b show ?thesis by simp
qed

text \<open>
  Claim C1 as it was stated fails: in the second iteration of this search the confidence
  \<open>4/5\<close> exceeds \<^verbatim>\<open>min_confidence = 2/5\<close>, the wanted class is the arg-max and the next
  draw \<open>1/10\<close> is below the confidence, but the confidence is below the best-known
  \<open>9/10\<close>: the record is not accepted, and the search ends in \<^verbatim>\<open>RuntimeError\<close>.
\<close>

theorem acceptance_test_counterexample:
  "hill_climbing_proceeds toy_target 1 (2 / 5) 3 1 (always_randomized [2]) 1
     (initial_search 1 [1] high_then_low_draws) = Some toy_second_state \<and>
   py_index (target_predict toy_target (candidate toy_second_state)) 1 = Inr (4 / 5) \<and>
   (2 / 5 :: real) < 4 / 5 \<and>
   argmax (target_predict toy_target (candidate toy_second_state)) = Inr 1 \<and>
   fst (rng_random (gen toy_second_state)) < 4 / 5 \<and>
   fst (hill_climbing_decide toy_target 1 (2 / 5) 3 1 toy_second_state) = Proceed \<and>
   fst (hill_climbing_loop toy_target 1 (2 / 5) 3 1 (always_randomized [2]) 2
          (initial_search 1 [1] high_then_low_draws)) = Inl RuntimeError"
proof -
  have "hill_climbing_proceeds toy_target 1 (2 / 5) 3 1 (always_randomized [2]) 1
     (initial_search 1 [1] high_then_low_draws) = Some toy_second_state"
    by (simp add: toy_run_defs toy_second_state_def)
  moreover have "py_index (target_predict toy_target (candidate toy_second_state)) 1 = Inr (4 / 5)"
    by (simp add: toy_run_defs toy_second_state_def)
  moreover have "argmax (target_predict toy_target (candidate toy_second_state)) = Inr 1"
    by (simp add: toy_run_defs toy_second_state_def)
  moreover have "fst (rng_random (gen toy_second_state)) < 4 / 5"
    by (simp add: toy_run_defs toy_second_state_def)
  moreover have "fst (hill_climbing_decide toy_target 1 (2 / 5) 3 1 toy_second_state) = Proceed"
    by (simp add: toy_run_defs toy_second_state_def)
  moreover have "fst (hill_climbing_loop toy_target 1 (2 / 5) 3 1 (always_randomized [2]) 2
          (initial_search 1 [1] high_then_low_draws)) = Inl RuntimeError"
    by code_simp
  ultimately show ?thesis by simp
qed

text \<open>What the decision leaves of the fields, whatever the branch.\<close>

lemma decide_fields:
  assumes "hill_climbing_decide T w mc mr mf st = (f, st')"
  shows "randomize_calls st' = randomize_calls st"
    and "candidate st' = candidate st"
    and "k_features_randomized st' = k_features_randomized st \<or>
         k_features_randomized st' = max mf \<lceil>real_of_int (k_features_randomized st) / 2\<rceil>"
    and "best_x st \<noteq> None \<Longrightarrow> best_x st' \<noteq> None"
proof -
  consider (err) e where "py_index (target_predict T (candidate st)) w = Inl e"
    | (low) conf where "py_index (target_predict T (candidate st)) w = Inr conf"
        "conf < best_class_confidence st"
    | (high) conf where "py_index (target_predict T (candidate st)) w = Inr conf"
        "best_class_confidence st \<le> conf"
    by (cases "py_index (target_predict T (candidate st)) w") fastforce+
  then have "randomize_calls st' = randomize_calls st \<and> candidate st' = candidate st \<and>
     (k_features_randomized st' = k_features_randomized st \<or>
      k_features_randomized st' = max mf \<lceil>real_of_int (k_features_randomized st) / 2\<rceil>) \<and>
     (best_x st \<noteq> None \<longrightarrow> best_x st' \<noteq> None)"
  proof cases
    case err
    then show ?thesis using assms by (simp add: decide_raises)
  next
    case low
    then show ?thesis using assms by (auto simp: decide_below_best split: if_splits)
  next
    case high
    then show ?thesis using assms by (auto simp: decide_at_least_best split: if_splits)
  qed
  then show "randomize_calls st' = randomize_calls st"
    and "candidate st' = candidate st"
    and "k_features_randomized st' = k_features_randomized st \<or>
         k_features_randomized st' = max mf \<lceil>real_of_int (k_features_randomized st) / 2\<rceil>"
    and "best_x st \<noteq> None \<Longrightarrow> best_x st' \<noteq> None"
    by simp_all
qed

text \<open>An iteration, by the outcome of its decision.\<close>

lemma iteration_cases:
  assumes "hill_climbing_decide T w mc mr mf st = (f, st1)"
  shows "hill_climbing_iteration T w mc mr mf rf st =
     (case f of
        Raise e \<Rightarrow> (Raise e, st1)
      | Return r \<Rightarrow> (Return r, st1)
      | Proceed \<Rightarrow>
          (case rf (best_x st1) (k_features_randomized st1) (gen st1) of
             (Inl e, g') \<Rightarrow>
               (Raise e, st1\<lparr>randomize_calls :=
                   randomize_calls st1 @ [(best_x st1, k_features_randomized st1)], gen := g'\<rparr>)
           | (Inr next_x, g') \<Rightarrow>
               (Proceed, st1\<lparr>randomize_calls :=
                   randomize_calls st1 @ [(best_x st1, k_features_randomized st1)],
                   candidate := next_x, gen := g'\<rparr>)))"
  using assms by (simp add: hill_climbing_iteration_def Let_def split: flow.splits)

lemma iteration_calls:
  assumes "hill_climbing_iteration T w mc mr mf rf st = (f, st')"
  obtains "randomize_calls st' = randomize_calls st"
  | st1 where "hill_climbing_decide T w mc mr mf st = (Proceed, st1)"
      "randomize_calls st' = randomize_calls st @ [(best_x st1, k_features_randomized st1)]"
      "k_features_randomized st' = k_features_randomized st1"
      "best_x st' = best_x st1"
proof -
  obtain f1 st1 where d: "hill_climbing_decide T w mc mr mf st = (f1, st1)"
    by (cases "hill_climbing_decide T w mc mr mf st")
  note c = decide_fields(1)[OF d]
  show ?thesis
  proof (cases f1)
    case (Raise e)
    then show ?thesis using assms d c that(1) by (simp add: iteration_cases[OF d])
  next
    case (Return r)
    then show ?thesis using assms d c that(1) by (simp add: iteration_cases[OF d])
  next
    case Proceed
    then have "randomize_calls st' = randomize_calls st @ [(best_x st1, k_features_randomized st1)] \<and>
      k_features_randomized st' = k_features_randomized st1 \<and> best_x st' = best_x st1"
      using assms c by (auto simp: iteration_cases[OF d] split: prod.splits sum.splits)
    then show ?thesis using that(2) d Proceed by simp
  qed
qed

lemma loop_exhausted:
  "hill_climbing_proceeds T w mc mr mf rf n st0 = Some st \<Longrightarrow>
   hill_climbing_loop T w mc mr mf rf n st0 = (Inl RuntimeError, st)"
proof (induction n arbitrary: st0)
  case 0
  then show ?case by simp
next
  case (Suc n)
  then show ?case
    by (auto split: prod.splits flow.splits)
qed

lemma loop_accepts:
  "hill_climbing_proceeds T w mc mr mf rf j st0 = Some st \<Longrightarrow> j < n \<Longrightarrow>
   hill_climbing_decide T w mc mr mf st = (Return r, st') \<Longrightarrow>
   hill_climbing_loop T w mc mr mf rf n st0 = (Inr r, st')"
proof (induction j arbitrary: st0 n)
  case 0
  then obtain m where "n = Suc m" by (cases n) auto
  then show ?case using 0 by (simp add: hill_climbing_iteration_def)
next
  case (Suc j)
  then obtain m where n: "n = Suc m" and m: "j < m" by (cases n) auto
  from Suc.prems(1) obtain st1 where
    it: "hill_climbing_iteration T w mc mr mf rf st0 = (Proceed, st1)"
    and rest: "hill_climbing_proceeds T w mc mr mf rf j st1 = Some st"
    by (auto split: prod.splits flow.splits)
  from Suc.IH[OF rest m Suc.prems(3)] show ?case
    using it n by simp
qed







lemma decide_record_known:
  assumes "hill_climbing_decide T w mc mr mf st = (f, st1)" and "record_known T w st"
  shows "(f = Proceed \<longrightarrow> best_x st1 \<noteq> None) \<and> (f \<noteq> Proceed \<longrightarrow> record_known T w st1)"
proof -
  consider (err) e where "py_index (target_predict T (candidate st)) w = Inl e"
    | (low) conf where "py_index (target_predict T (candidate st)) w = Inr conf"
        "conf < best_class_confidence st"
    | (high) conf where "py_index (target_predict T (candidate st)) w = Inr conf"
        "best_class_confidence st \<le> conf"
    by (cases "py_index (target_predict T (candidate st)) w") fastforce+
  then show ?thesis
  proof cases
    case err
    then show ?thesis using assms by (auto simp: decide_raises)
  next
    case low
    then have "best_x st \<noteq> None" using assms(2) by (auto simp: record_known_def)
    then show ?thesis using assms(1) low by (auto simp: decide_below_best split: if_splits)
  next
    case high
    then show ?thesis
      using assms by (auto simp: decide_at_least_best record_known_def split: if_splits)
  qed
qed

lemma iteration_record_known:
  assumes "hill_climbing_iteration T w mc mr mf rf st = (f, st')" and "record_known T w st"
  shows "record_known T w st'"
proof -
  obtain f1 st1 where d: "hill_climbing_decide T w mc mr mf st = (f1, st1)"
    by (cases "hill_climbing_decide T w mc mr mf st")
  note k = decide_record_known[OF d assms(2)]
  note c = decide_fields(1)[OF d]
  show ?thesis
  proof (cases "f1 = Proceed")
    case False
    then have "st' = st1" using assms(1) by (cases f1) (simp_all add: iteration_cases[OF d])
    then show ?thesis using k False by simp
  next
    case True
    then have b: "best_x st1 \<noteq> None" using k by simp
    have "randomize_calls st' = randomize_calls st @ [(best_x st1, k_features_randomized st1)] \<and>
          best_x st' = best_x st1"
      using assms(1) True c by (auto simp: iteration_cases[OF d] split: prod.splits sum.splits)
    then show ?thesis using b assms(2) by (auto simp: record_known_def)
  qed
qed

lemma loop_record_known:
  "record_known T w st \<Longrightarrow> record_known T w (snd (hill_climbing_loop T w mc mr mf rf n st))"
proof (induction n arbitrary: st)
  case 0
  then show ?case by simp
next
  case (Suc n)
  obtain f st' where it: "hill_climbing_iteration T w mc mr mf rf st = (f, st')"
    by (cases "hill_climbing_iteration T w mc mr mf rf st")
  note ok = iteration_record_known[OF it Suc.prems]
  show ?case
    using it ok Suc.IH[OF ok] by (cases f) simp_all
qed

lemma loop_calls_grow:
  "\<exists>more. randomize_calls (snd (hill_climbing_loop T w mc mr mf rf n st)) =
     randomize_calls st @ more"
proof (induction n arbitrary: st)
  case 0
  then show ?case by simp
next
  case (Suc n)
  obtain f st' where it: "hill_climbing_iteration T w mc mr mf rf st = (f, st')"
    by (cases "hill_climbing_iteration T w mc mr mf rf st")
  have one: "\<exists>more. randomize_calls st' = randomize_calls st @ more"
    using it by (cases rule: iteration_calls) auto
  show ?case
  proof (cases f)
    case Proceed
    from Suc.IH[of st'] one show ?thesis using it Proceed by auto
  qed (use it one in simp_all)
qed

text \<open>
  Claim C10. The search starts with no best record and the best confidence 0. When the
  first query gives the wanted class a non-negative confidence, no call of
  \<^verbatim>\<open>randomize_features_fn\<close> in a search of any length receives \<^verbatim>\<open>None\<close>. When it gives a
  negative one and there is at least one iteration, the first call receives \<^verbatim>\<open>None\<close>, and
  with the default callback the search ends in \<^verbatim>\<open>AttributeError\<close>.
\<close>

theorem randomize_receives_record:
  assumes "py_index (target_predict T first) w = Inr conf"
  shows "best_x (initial_search k first g) = None \<and>
         best_class_confidence (initial_search k first g) = 0 \<and>
         (0 \<le> conf \<longrightarrow>
            (\<forall>c \<in> set (randomize_calls
                (snd (hill_climbing_loop T w mc mr mf rf n (initial_search k first g)))).
               fst c \<noteq> None)) \<and>
         (conf < 0 \<and> 0 < n \<longrightarrow>
            randomize_calls
              (snd (hill_climbing_loop T w mc mr mf rf n (initial_search k first g))) \<noteq> [] \<and>
            fst (hd (randomize_calls
              (snd (hill_climbing_loop T w mc mr mf rf n (initial_search k first g))))) = None \<and>
            fst (hill_climbing_loop T w mc mr mf (default_randomize_features shape) n
                   (initial_search k first g)) = Inl AttributeError)"
proof (intro conjI impI)
  show "best_x (initial_search k first g) = None"
    by (simp add: initial_search_def)
  show "best_class_confidence (initial_search k first g) = 0"
    by (simp add: initial_search_def)
next
  assume "0 \<le> conf"
  then have "record_known T w (initial_search k first g)"
    using assms by (simp add: record_known_def initial_search_def)
  then have "record_known T w (snd (hill_climbing_loop T w mc mr mf rf n (initial_search k first g)))"
    by (rule loop_record_known)
  then show "\<forall>c \<in> set (randomize_calls
                (snd (hill_climbing_loop T w mc mr mf rf n (initial_search k first g)))).
               fst c \<noteq> None"
    by (simp add: record_known_def)
next
  assume neg: "conf < 0 \<and> 0 < n"
  then obtain m where n: "n = Suc m" by (cases n) auto
  let ?init = "initial_search k first g"
  have py: "py_index (target_predict T (candidate ?init)) w = Inr conf"
    using assms by (simp add: initial_search_def)
  have low: "conf < best_class_confidence ?init" using neg by (simp add: initial_search_def)
  have "\<exists>st1. hill_climbing_decide T w mc mr mf ?init = (Proceed, st1) \<and>
      best_x st1 = None \<and> randomize_calls st1 = []"
    unfolding decide_below_best[OF py low] by (simp add: initial_search_def)
  then obtain st1 where d: "hill_climbing_decide T w mc mr mf ?init = (Proceed, st1)"
    and b: "best_x st1 = None" and c: "randomize_calls st1 = []"
    by blast
  have calls: "randomize_calls (snd (hill_climbing_loop T w mc mr mf cb n ?init)) \<noteq> [] \<and>
      fst (hd (randomize_calls (snd (hill_climbing_loop T w mc mr mf cb n ?init)))) = None"
    for cb
  proof -
    obtain f st' where it: "hill_climbing_iteration T w mc mr mf cb ?init = (f, st')"
      by (cases "hill_climbing_iteration T w mc mr mf cb ?init")
    then have one: "randomize_calls st' = [(None, k_features_randomized st1)]"
      using b c by (auto simp: iteration_cases[OF d] split: prod.splits sum.splits)
    from loop_calls_grow[of T w mc mr mf cb m st'] one
    obtain more where "randomize_calls (snd (hill_climbing_loop T w mc mr mf cb m st')) =
        (None, k_features_randomized st1) # more"
      by auto
    moreover have "f \<noteq> Proceed \<Longrightarrow> snd (hill_climbing_loop T w mc mr mf cb n ?init) = st'"
      using it n by (cases f) simp_all
    moreover have "f = Proceed \<Longrightarrow> snd (hill_climbing_loop T w mc mr mf cb n ?init) =
        snd (hill_climbing_loop T w mc mr mf cb m st')"
      using it n by simp
    ultimately show ?thesis using one by (cases "f = Proceed") auto
  qed
  show "randomize_calls (snd (hill_climbing_loop T w mc mr mf rf n ?init)) \<noteq> []"
    using calls by blast
  show "fst (hd (randomize_calls (snd (hill_climbing_loop T w mc mr mf rf n ?init)))) = None"
    using calls by blast
  show "fst (hill_climbing_loop T w mc mr mf (default_randomize_features shape) n ?init) =
      Inl AttributeError"
    using b n by (simp add: iteration_cases[OF d] default_randomize_features_def)
qed

theorem randomize_receives_record_witness:
  "None \<notin> fst ` set (randomize_calls (snd (hill_climbing_loop toy_target 1 0 0 1
      (always_randomized [2]) 6 (initial_search 8 [1] high_draws)))) \<and>
   fst (hd (randomize_calls (snd (hill_climbing_loop toy_target 0 0 3 1
      (always_randomized [2]) 2 (initial_search 8 [3] high_draws))))) = None \<and>
   fst (hill_climbing_loop toy_target 0 0 3 1 (default_randomize_features 1) 2
      (initial_search 8 [3] high_draws)) = Inl AttributeError"
proof -
  have h1: "py_index (target_predict toy_target [1]) 1 = Inr (9 / 10)"
    by (simp add: toy_run_defs)
  have h2: "py_index (target_predict toy_target [3]) 0 = Inr (- 1)"
    by (simp add: toy_run_defs)
  from randomize_receives_record[OF h1, where mc = 0 and mr = 0 and mf = 1
      and rf = "always_randomized [2]" and n = 6 and k = 8 and g = high_draws]
  have a: "None \<notin> fst ` set (randomize_calls (snd (hill_climbing_loop toy_target 1 0 0 1
      (always_randomized [2]) 6 (initial_search 8 [1] high_draws))))"
    by force
  from randomize_receives_record[OF h2, where mc = 0 and mr = 3 and mf = 1
      and rf = "always_randomized [2]" and n = 2 and k = 8 and g = high_draws and shape = 1]
  have b: "fst (hd (randomize_calls (snd (hill_climbing_loop toy_target 0 0 3 1
      (always_randomized [2]) 2 (initial_search 8 [3] high_draws))))) = None \<and>
   fst (hill_climbing_loop toy_target 0 0 3 1 (default_randomize_features 1) 2
      (initial_search 8 [3] high_draws)) = Inl AttributeError"
    by simp
  from a b show ?thesis by simp
qed

lemma synthesis_exhausted:
  assumes "random_record_or_default (input_shape s) rr (rng s) = (Inr first, g)"
    and "hill_climbing_proceeds T w mc mr mf (randomize_features_or_default (input_shape s) rf)
           (nat max_iterations) (initial_search k first g) = Some st"
  shows "hill_climbing_synthesis T w mc k max_iterations mr mf rr rf s =
           (Inl RuntimeError, s\<lparr>rng := gen st\<rparr>)"
  using assms by (simp add: hill_climbing_synthesis_def loop_exhausted)

lemma synthesis_accepts:
  assumes "random_record_or_default (input_shape s) rr (rng s) = (Inr first, g)"
    and "hill_climbing_proceeds T w mc mr mf (randomize_features_or_default (input_shape s) rf)
           j (initial_search k first g) = Some st"
    and "j < nat max_iterations"
    and "hill_climbing_decide T w mc mr mf st = (Return r, st')"
  shows "hill_climbing_synthesis T w mc k max_iterations mr mf rr rf s =
           (Inr r, s\<lparr>rng := gen st'\<rparr>)"
  using assms(1) loop_accepts[OF assms(2,3,4)] by (simp add: hill_climbing_synthesis_def)

text \<open>
  Claim C8, as amended. With \<^verbatim>\<open>min_confidence = 0\<close> and an iteration bound that reaches
  step \<open>j\<close>, the search returns the candidate of step \<open>j\<close> when no earlier step has
  returned or raised and, at step \<open>j\<close>, the confidence is at least the best-known
  confidence, is positive, the wanted class is the arg-max and the uniform draw is below
  the confidence.
\<close>

theorem first_accepted_step:
  assumes "random_record_or_default (input_shape s) rr (rng s) = (Inr first, g)"
    and "hill_climbing_proceeds T w 0 mr mf (randomize_features_or_default (input_shape s) rf)
           j (initial_search k first g) = Some st"
    and "j < nat max_iterations"
    and "py_index (target_predict T (candidate st)) w = Inr conf"
    and "best_class_confidence st \<le> conf" and "0 < conf"
    and "argmax (target_predict T (candidate st)) = Inr (nat w)" and "0 \<le> w"
    and "fst (rng_random (gen st)) < conf"
  shows "hill_climbing_synthesis T w 0 k max_iterations mr mf rr rf s =
           (Inr (candidate st), s\<lparr>rng := snd (rng_random (gen st))\<rparr>)"
proof -
  have "hill_climbing_decide T w 0 mr mf st =
      (Return (candidate st), st\<lparr>gen := snd (rng_random (gen st))\<rparr>)"
    using assms(6-9) by (simp add: decide_at_least_best[OF assms(4,5)])
  from synthesis_accepts[OF assms(1,2,3) this] show ?thesis by simp
qed

theorem first_accepted_step_witness:
  "hill_climbing_synthesis toy_target 1 0 1 40 3 1 (Some (always_record [0]))
     (Some (always_randomized [1])) (toy_synthetic_pool low_draws) =
   (Inr [1], (toy_synthetic_pool low_draws)\<lparr>rng := snd (rng_random low_draws)\<rparr>)"
proof -
  let ?s = "toy_synthetic_pool low_draws"
  have h1: "random_record_or_default (input_shape ?s) (Some (always_record [0])) (rng ?s) =
      (Inr [0], low_draws)"
    by (simp add: random_record_or_default_def always_record_def toy_synthetic_pool_def)
  have h2: "hill_climbing_proceeds toy_target 1 0 3 1
      (randomize_features_or_default (input_shape ?s) (Some (always_randomized [1])))
      1 (initial_search 1 [0] low_draws) = Some toy_improved_state"
    by (simp add: toy_run_defs toy_improved_state_def randomize_features_or_default_def)
  have h3: "1 < nat 40" by simp
  have h4: "py_index (target_predict toy_target (candidate toy_improved_state)) 1 = Inr (9 / 10)"
    by (simp add: toy_run_defs toy_improved_state_def)
  have h5: "best_class_confidence toy_improved_state \<le> 9 / 10"
    by (simp add: toy_improved_state_def)
  have h6: "(0::real) < 9 / 10" by simp
  have h7: "argmax (target_predict toy_target (candidate toy_improved_state)) = Inr (nat 1)"
    by (simp add: toy_run_defs toy_improved_state_def)
  have h8: "(0::int) \<le> 1" by simp
  have h9: "fst (rng_random (gen toy_improved_state)) < 9 / 10"
    by (simp add: toy_run_defs toy_improved_state_def)
  from first_accepted_step[OF h1 h2 h3 h4 h5 h6 h7 h8 h9]
  show ?thesis by (simp add: toy_improved_state_def)
qed

text \<open>
  Claim C8 as it was stated fails. In this search with \<^verbatim>\<open>min_confidence = 0\<close> and three
  iterations, the first candidate has the positive confidence \<open>9/10\<close> for the wanted class,
  which is the arg-max, but the draw \<open>19/20\<close> is not below it and the search goes on; the
  second candidate has the positive confidence \<open>4/5\<close>, the wanted class is the arg-max and
  the next draw \<open>1/10\<close> is below it, but \<open>4/5\<close> is below the best-known \<open>9/10\<close> and no
  acceptance is tried. The search ends in \<^verbatim>\<open>RuntimeError\<close>.
\<close>

theorem first_accepted_step_counterexample:
  "fst (hill_climbing_synthesis toy_target 1 0 1 3 3 1 (Some (always_record [1]))
          (Some (always_randomized [2])) (toy_synthetic_pool high_then_low_draws)) =
     Inl RuntimeError \<and>
   py_index (target_predict toy_target [1]) 1 = Inr (9 / 10) \<and>
   (0 :: real) < 9 / 10 \<and>
   argmax (target_predict toy_target [1]) = Inr 1 \<and>
   hill_climbing_proceeds toy_target 1 0 3 1 (always_randomized [2]) 1
     (initial_search 1 [1] high_then_low_draws) = Some toy_second_state \<and>
   py_index (target_predict toy_target (candidate toy_second_state)) 1 = Inr (4 / 5) \<and>
   (0 :: real) < 4 / 5 \<and>
   argmax (target_predict toy_target (candidate toy_second_state)) = Inr 1 \<and>
   fst (rng_random (gen toy_second_state)) < 4 / 5"
proof -
  have "fst (hill_climbing_synthesis toy_target 1 0 1 3 3 1 (Some (always_record [1]))
          (Some (always_randomized [2])) (toy_synthetic_pool high_then_low_draws)) =
     Inl RuntimeError"
    by code_simp
  moreover have "py_index (target_predict toy_target [1]) 1 = Inr (9 / 10)"
    by (simp add: toy_run_defs)
  moreover have "argmax (target_predict toy_target [1]) = Inr 1"
    by (simp add: toy_run_defs)
  moreover have "hill_climbing_proceeds toy_target 1 0 3 1 (always_randomized [2]) 1
     (initial_search 1 [1] high_then_low_draws) = Some toy_second_state"
    by (simp add: toy_run_defs toy_second_state_def)
  moreover have "py_index (target_predict toy_target (candidate toy_second_state)) 1 = Inr (4 / 5)"
    by (simp add: toy_run_defs toy_second_state_def)
  moreover have "argmax (target_predict toy_target (candidate toy_second_state)) = Inr 1"
    by (simp add: toy_run_defs toy_second_state_def)
  moreover have "fst (rng_random (gen toy_second_state)) < 4 / 5"
    by (simp add: toy_run_defs toy_second_state_def)
  ultimately show ?thesis by simp
qed

lemma tries_all_fail:
  "i + n = m \<Longrightarrow> int m = max_retries \<Longrightarrow> 0 < n \<Longrightarrow>
   failed_tries T w mc k rr rf n s = Some s' \<Longrightarrow>
   synthesis_tries T w mc k max_retries rr rf [i..<m] rv s = (Inl RuntimeError, s')"
proof (induction n arbitrary: i s)
  case 0
  then show ?case by simp
next
  case (Suc n)
  from Suc.prems(1) have upt: "[i..<m] = i # [Suc i..<m]"
    by (simp add: upt_conv_Cons)
  from Suc.prems(4) obtain s1 where
    h: "hill_climbing_synthesis T w mc k 40 3 1 rr rf s = (Inl RuntimeError, s1)"
    and rest: "failed_tries T w mc k rr rf n s1 = Some s'"
    by (auto split: prod.splits sum.splits if_splits)
  show ?case
  proof (cases n)
    case 0
    then have "int i = max_retries - 1" using Suc.prems(1,2) by auto
    moreover have "s1 = s'" using rest 0 by simp
    ultimately show ?thesis unfolding upt using h by simp
  next
    case (Suc n')
    then have "int i \<noteq> max_retries - 1" using Suc.prems(1,2) by auto
    moreover have "synthesis_tries T w mc k max_retries rr rf [Suc i..<m] rv s1 =
        (Inl RuntimeError, s')"
      using Suc.IH[of "Suc i" s1] Suc.prems(1,2) rest Suc by simp
    ultimately show ?thesis unfolding upt using h by simp
  qed
qed

lemma tries_recover:
  "i + n = m \<Longrightarrow> int m = max_retries \<Longrightarrow> j < n \<Longrightarrow>
   failed_tries T w mc k rr rf j s = Some sj \<Longrightarrow>
   hill_climbing_synthesis T w mc k 40 3 1 rr rf sj = (Inr r, s') \<Longrightarrow>
   synthesis_tries T w mc k max_retries rr rf [i..<m] rv s = (Inr (Some r), s')"
proof (induction j arbitrary: i n s)
  case 0
  then have upt: "[i..<m] = i # [Suc i..<m]" by (simp add: upt_conv_Cons)
  show ?case unfolding upt using 0 by simp
next
  case (Suc j)
  then have upt: "[i..<m] = i # [Suc i..<m]" by (simp add: upt_conv_Cons)
  from Suc.prems(4) obtain s1 where
    h: "hill_climbing_synthesis T w mc k 40 3 1 rr rf s = (Inl RuntimeError, s1)"
    and rest: "failed_tries T w mc k rr rf j s1 = Some sj"
    by (auto split: prod.splits sum.splits if_splits)
  obtain n' where n: "n = Suc n'" and j: "j < n'" using Suc.prems(3) by (cases n) auto
  have "int i \<noteq> max_retries - 1" using Suc.prems(1,2) n j by auto
  moreover have "synthesis_tries T w mc k max_retries rr rf [Suc i..<m] rv s1 = (Inr (Some r), s')"
    using Suc.IH[of "Suc i" n' s1] Suc.prems(1,2,5) n j rest by simp
  ultimately show ?case unfolding upt using h by simp
qed

lemma records_all_tries_fail:
  assumes "1 \<le> max_retries"
    and "failed_tries T w mc k rr rf (nat max_retries) s = Some s'"
  shows "synthesize_records T w mc k max_retries rr rf label (Suc n) vars s =
           (Inl RuntimeError, s')"
proof -
  have "synthesis_tries T w mc k max_retries rr rf [0..<nat max_retries] rv s =
      (Inl RuntimeError, s')" for rv
    using assms by (intro tries_all_fail[of 0 "nat max_retries"]) simp_all
  then show ?thesis
    by (cases vars) (simp add: py_range_def)
qed

lemma no_tries_unbound:
  assumes "max_retries \<le> 0"
  shows "synthesize_records T w mc k max_retries rr rf label (Suc n) (x, y, None) s =
           (Inl UnboundLocalError, s)"
  using assms by (simp add: py_range_def)

lemma first_record_failure_propagates:
  assumes "1 \<le> max_retries" and "1 \<le> nb_classes T" and "nb_classes T \<le> dataset_size"
    and "failed_tries T 0 mc k rr rf (nat max_retries) s = Some s'"
  shows "generate_synthetic_shadow_dataset E T random_indices dataset_size k member_ratio mc
           max_retries rr rf s = (Inl RuntimeError, s')"
proof -
  have "1 \<le> dataset_size div nb_classes T"
    using assms(2,3) zdiv_mono1[of "nb_classes T" dataset_size "nb_classes T"] by simp
  then obtain m where m: "nat (dataset_size div nb_classes T) = Suc m"
    by (cases "nat (dataset_size div nb_classes T)") auto
  have cs: "py_range (nb_classes T) = 0 # [1..<nat (nb_classes T)]"
    using assms(2) by (simp add: py_range_def upt_conv_Cons)
  have "synthesize_records T (int 0) mc k max_retries rr rf (one_hot (nb_classes T) 0)
      (Suc m) ([], [], None) s = (Inl RuntimeError, s')"
    using records_all_tries_fail[OF assms(1), of T 0 mc k rr rf s s'] assms(4)
    unfolding int_ops(1) by blast
  then have "synthesize_dataset T dataset_size k mc max_retries rr rf s = (Inl RuntimeError, s')"
    using assms(2) m cs by (simp add: synthesize_dataset_def Let_def)
  then show ?thesis by (simp add: generate_synthetic_shadow_dataset_def)
qed

text \<open>
  Claim C2. A search whose \<^verbatim>\<open>max_iterations\<close> iterations all go on without a return raises
  \<^verbatim>\<open>RuntimeError\<close>, which is not the \<^verbatim>\<open>ValueError\<close> of the validation. With
  \<^verbatim>\<open>max_retries \<ge> 1\<close>, when \<^verbatim>\<open>max_retries\<close> syntheses in a row fail so, the synthesis of
  the record raises \<^verbatim>\<open>RuntimeError\<close> after exactly these calls, and
  \<^verbatim>\<open>generate_synthetic_shadow_dataset\<close> passes the error on to its caller (shown for its
  first record); when fewer of them fail and the next one succeeds, the record is the one
  that synthesis returns.
\<close>

theorem synthesis_failure_and_retries:
  assumes "1 \<le> max_retries"
  shows "(\<forall>first g st.
            random_record_or_default (input_shape s) rr (rng s) = (Inr first, g) \<and>
            hill_climbing_proceeds T w mc mr mf (randomize_features_or_default (input_shape s) rf)
              (nat max_iterations) (initial_search k first g) = Some st \<longrightarrow>
            hill_climbing_synthesis T w mc k max_iterations mr mf rr rf s =
              (Inl RuntimeError, s\<lparr>rng := gen st\<rparr>)) \<and>
         RuntimeError \<noteq> ValueError \<and>
         (\<forall>s'. failed_tries T w mc k rr rf (nat max_retries) s = Some s' \<longrightarrow>
            synthesize_records T w mc k max_retries rr rf label (Suc n) vars s =
              (Inl RuntimeError, s')) \<and>
         (\<forall>s'. 1 \<le> nb_classes T \<and> nb_classes T \<le> dataset_size \<and>
            failed_tries T 0 mc k rr rf (nat max_retries) s = Some s' \<longrightarrow>
            generate_synthetic_shadow_dataset E T random_indices dataset_size k member_ratio mc
              max_retries rr rf s = (Inl RuntimeError, s')) \<and>
         (\<forall>j sj r s'. j < nat max_retries \<and> failed_tries T w mc k rr rf j s = Some sj \<and>
            hill_climbing_synthesis T w mc k 40 3 1 rr rf sj = (Inr r, s') \<longrightarrow>
            synthesis_tries T w mc k max_retries rr rf (py_range max_retries) rv s =
              (Inr (Some r), s'))"
proof (intro conjI allI impI)
  fix first g st
  assume "random_record_or_default (input_shape s) rr (rng s) = (Inr first, g) \<and>
            hill_climbing_proceeds T w mc mr mf (randomize_features_or_default (input_shape s) rf)
              (nat max_iterations) (initial_search k first g) = Some st"
  then show "hill_climbing_synthesis T w mc k max_iterations mr mf rr rf s =
              (Inl RuntimeError, s\<lparr>rng := gen st\<rparr>)"
    by (simp add: synthesis_exhausted)
next
  show "RuntimeError \<noteq> ValueError" by simp
next
  fix s'
  assume "failed_tries T w mc k rr rf (nat max_retries) s = Some s'"
  then show "synthesize_records T w mc k max_retries rr rf label (Suc n) vars s =
      (Inl RuntimeError, s')"
    by (rule records_all_tries_fail[OF assms])
next
  fix s'
  assume "1 \<le> nb_classes T \<and> nb_classes T \<le> dataset_size \<and>
            failed_tries T 0 mc k rr rf (nat max_retries) s = Some s'"
  then have "1 \<le> nb_classes T" and "nb_classes T \<le> dataset_size"
    and "failed_tries T 0 mc k rr rf (nat max_retries) s = Some s'"
    by simp_all
  then show "generate_synthetic_shadow_dataset E T random_indices dataset_size k member_ratio mc
              max_retries rr rf s = (Inl RuntimeError, s')"
    by (rule first_record_failure_propagates[OF assms])
next
  fix j sj r s'
  assume a: "j < nat max_retries \<and> failed_tries T w mc k rr rf j s = Some sj \<and>
            hill_climbing_synthesis T w mc k 40 3 1 rr rf sj = (Inr r, s')"
  then have a1: "j < nat max_retries"
    and a2: "failed_tries T w mc k rr rf j s = Some sj"
    and a3: "hill_climbing_synthesis T w mc k 40 3 1 rr rf sj = (Inr r, s')"
    by simp_all
  have "0 + nat max_retries = nat max_retries" "int (nat max_retries) = max_retries"
    using assms by simp_all
  from tries_recover[OF this a1 a2 a3]
  show "synthesis_tries T w mc k max_retries rr rf (py_range max_retries) rv s =
              (Inr (Some r), s')"
    unfolding py_range_def .
qed

theorem synthesis_failure_and_retries_witness:
  "fst (hill_climbing_synthesis toy_target 0 (2 / 5) 1 40 3 1 (Some (always_record [0]))
          (Some (always_randomized [1])) (toy_synthetic_pool high_draws)) = Inl RuntimeError \<and>
   fst (synthesize_records toy_target 0 (2 / 5) 1 2 (Some (always_record [0]))
          (Some (always_randomized [1])) [1, 0] (Suc 0) ([], [], None)
          (toy_synthetic_pool high_draws)) = Inl RuntimeError \<and>
   fst (generate_synthetic_shadow_dataset toy_synthetic_estimator toy_target [3, 2, 1, 0] 5 1
          (1 / 2) (2 / 5) 2 (Some (always_record [0])) (Some (always_randomized [1]))
          (toy_synthetic_pool high_draws)) = Inl RuntimeError \<and>
   fst (synthesis_tries toy_target 0 (2 / 5) 1 2 (Some (always_record [0]))
          (Some (always_randomized [1])) (py_range 2) None
          (toy_synthetic_pool high_then_low_draws)) = Inr (Some [0])"
proof -
  let ?rr = "Some (always_record [0])" and ?rf = "Some (always_randomized [1])"
  let ?s = "toy_synthetic_pool high_draws" and ?s2 = "toy_synthetic_pool high_then_low_draws"
  have retries: "(1::int) \<le> 2" by simp
  note t = synthesis_failure_and_retries[OF retries, where T = toy_target and w = 0
      and mc = "2 / 5" and k = 1 and rr = ?rr and rf = ?rf and mr = 3 and mf = 1
      and max_iterations = 40 and label = "[1, 0]" and n = 0 and vars = "([], [], None)"
      and E = toy_synthetic_estimator and random_indices = "[3, 2, 1, 0]"
      and dataset_size = 5 and member_ratio = "1 / 2" and rv = None]
  have first: "random_record_or_default (input_shape ?s) ?rr (rng ?s) = (Inr [0], high_draws)"
    by (simp add: random_record_or_default_def always_record_def toy_synthetic_pool_def)
  have "hill_climbing_proceeds toy_target 0 (2 / 5) 3 1
      (randomize_features_or_default (input_shape ?s) ?rf) (nat 40)
      (initial_search 1 [0] high_draws) \<noteq> None"
    by code_simp
  then obtain st where "hill_climbing_proceeds toy_target 0 (2 / 5) 3 1
      (randomize_features_or_default (input_shape ?s) ?rf) (nat 40)
      (initial_search 1 [0] high_draws) = Some st"
    by blast
  with first t[where s = ?s]
  have a: "fst (hill_climbing_synthesis toy_target 0 (2 / 5) 1 40 3 1 ?rr ?rf ?s) = Inl RuntimeError"
    by simp
  have "failed_tries toy_target 0 (2 / 5) 1 ?rr ?rf (nat 2) ?s \<noteq> None"
    by code_simp
  then obtain s' where failed: "failed_tries toy_target 0 (2 / 5) 1 ?rr ?rf (nat 2) ?s = Some s'"
    by blast
  with t[where s = ?s]
  have b: "fst (synthesize_records toy_target 0 (2 / 5) 1 2 ?rr ?rf [1, 0] (Suc 0) ([], [], None) ?s) =
      Inl RuntimeError"
    by simp
  have classes: "1 \<le> nb_classes toy_target \<and> nb_classes toy_target \<le> 5"
    by (simp add: toy_target_def)
  with failed t[where s = ?s]
  have b': "fst (generate_synthetic_shadow_dataset toy_synthetic_estimator toy_target [3, 2, 1, 0]
      5 1 (1 / 2) (2 / 5) 2 ?rr ?rf ?s) = Inl RuntimeError"
    by simp
  have "failed_tries toy_target 0 (2 / 5) 1 ?rr ?rf 1 ?s2 \<noteq> None"
    by code_simp
  then obtain sj where sj: "failed_tries toy_target 0 (2 / 5) 1 ?rr ?rf 1 ?s2 = Some sj"
    by blast
  have "fst (hill_climbing_synthesis toy_target 0 (2 / 5) 1 40 3 1 ?rr ?rf
          (the (failed_tries toy_target 0 (2 / 5) 1 ?rr ?rf 1 ?s2))) = Inr [0]"
    by code_simp
  then obtain s'' where "hill_climbing_synthesis toy_target 0 (2 / 5) 1 40 3 1 ?rr ?rf sj = (Inr [0], s'')"
    using sj by (cases "hill_climbing_synthesis toy_target 0 (2 / 5) 1 40 3 1 ?rr ?rf sj") simp
  with sj t[where s = ?s2]
  have c: "fst (synthesis_tries toy_target 0 (2 / 5) 1 2 ?rr ?rf (py_range 2) None ?s2) =
      Inr (Some [0])"
    by (metis fst_conv nat_numeral numeral_2_eq_2 lessI One_nat_def)
  from a b b' c show ?thesis by simp
qed

section \<open>Properties of the synthetic shadow dataset\<close>














end
